theory Spec2Isabelle
  imports Main
begin

section \<open>Python values, text and the console\<close>

text \<open>
  The tools of \<^verbatim>\<open>interview_scheduler_agent/agent.py\<close> and
  \<^verbatim>\<open>interview_scheduler_agent/sql_agent.py\<close> read lines from the console with
  \<^verbatim>\<open>input("> ")\<close>, match keywords in them and return a dict. The model keeps that
  shape: a tool takes its arguments, the clock reading and the lines still waiting on the
  console, and returns either the exception that escapes it or the dict together with the
  lines it has not read.

  Text is a \<^typ>\<open>string\<close>, one \<^typ>\<open>char\<close> per character, a \<^typ>\<open>char\<close> being the
  character's code point: the model covers text of the code points 0 to 255, and the string
  methods below are Python's on those. What the tools print is not part of the model: no
  returned value depends on it.
\<close>

datatype pyval =
    PNone
  | PBool bool
  | PInt int
  | PFloat string
  | PStr string
  | PList "pyval list"
  | PDict "(string \<times> pyval) list"

text \<open>A dict literal is the list of its items in the order the source writes them.\<close>

type_synonym dict = "(string \<times> pyval) list"

datatype error = EOFError

type_synonym console = "string list"

text \<open>\<^verbatim>\<open>input("> ")\<close>: the next line of the console, or \<^verbatim>\<open>EOFError\<close> when none is left.\<close>

definition input :: "console \<Rightarrow> error + (string \<times> console)" where
  "input ins = (case ins of [] \<Rightarrow> Inl EOFError | l # rest \<Rightarrow> Inr (l, rest))"

subsection \<open>String methods\<close>

text \<open>
  The lowercase of one character: the letters \<^verbatim>\<open>A-Z\<close> and the capital letters
  \<^verbatim>\<open>0xc0-0xde\<close> (the multiplication sign \<^verbatim>\<open>0xd7\<close> is not one) move up by 32, every
  other character stays.
\<close>

definition lower_char :: "char \<Rightarrow> char" where
  "lower_char c =
     (let n = (of_char c :: nat)
      in if (65 \<le> n \<and> n \<le> 90) \<or> (192 \<le> n \<and> n \<le> 222 \<and> n \<noteq> 215)
         then char_of (n + 32) else c)"

text \<open>\<^verbatim>\<open>s.lower()\<close>\<close>

definition lower :: "string \<Rightarrow> string" where
  "lower s = map lower_char s"

text \<open>\<^verbatim>\<open>s.startswith(p)\<close>\<close>

fun startswith :: "string \<Rightarrow> string \<Rightarrow> bool" where
  "startswith s [] = True"
| "startswith [] (p # ps) = False"
| "startswith (c # cs) (p # ps) = (c = p \<and> startswith cs ps)"

text \<open>\<^verbatim>\<open>sub in s\<close>: \<open>sub\<close> starts at some position of \<open>s\<close>.\<close>

fun contains :: "string \<Rightarrow> string \<Rightarrow> bool" where
  "contains sub [] = (sub = [])"
| "contains sub (c # cs) = (startswith (c # cs) sub \<or> contains sub cs)"

text \<open>
  The characters \<^verbatim>\<open>str.strip()\<close> removes, those \<^verbatim>\<open>str.isspace\<close> accepts: tab, line
  feed, vertical tab, form feed, carriage return, the four separators \<^verbatim>\<open>0x1c-0x1f\<close>,
  the space, the next-line control \<^verbatim>\<open>0x85\<close> and the no-break space \<^verbatim>\<open>0xa0\<close>.
\<close>

definition isspace :: "char \<Rightarrow> bool" where
  "isspace c =
     (let n = (of_char c :: nat)
      in (9 \<le> n \<and> n \<le> 13) \<or> (28 \<le> n \<and> n \<le> 32) \<or> n = 133 \<or> n = 160)"

text \<open>\<^verbatim>\<open>s.strip()\<close>\<close>

definition strip :: "string \<Rightarrow> string" where
  "strip s = rev (dropWhile isspace (rev (dropWhile isspace s)))"

subsection \<open>The clock\<close>

text \<open>
  \<^verbatim>\<open>datetime.datetime.now()\<close> is read once on every path of every tool; its value is an
  argument of the model. Years have four digits, as every reading of a running clock has.
\<close>

record datetime =
  year :: nat
  month :: nat
  day :: nat
  hour :: nat
  minute :: nat
  second :: nat
  microsecond :: nat

definition digit :: "nat \<Rightarrow> char" where
  "digit d = char_of (48 + d mod 10)"

definition pad2 :: "nat \<Rightarrow> string" where
  "pad2 n = [digit (n div 10), digit n]"

definition pad4 :: "nat \<Rightarrow> string" where
  "pad4 n = [digit (n div 1000), digit (n div 100), digit (n div 10), digit n]"

definition pad6 :: "nat \<Rightarrow> string" where
  "pad6 n = [digit (n div 100000), digit (n div 10000), digit (n div 1000),
             digit (n div 100), digit (n div 10), digit n]"

text \<open>\<^verbatim>\<open>now.strftime('%Y%m%d%H%M')\<close>\<close>

definition strftime_YmdHM :: "datetime \<Rightarrow> string" where
  "strftime_YmdHM t = pad4 (year t) @ pad2 (month t) @ pad2 (day t) @ pad2 (hour t) @ pad2 (minute t)"

text \<open>\<^verbatim>\<open>now.isoformat()\<close>: the microseconds are printed only when they are not zero.\<close>

definition isoformat :: "datetime \<Rightarrow> string" where
  "isoformat t =
     pad4 (year t) @ ''-'' @ pad2 (month t) @ ''-'' @ pad2 (day t) @ ''T'' @
     pad2 (hour t) @ '':'' @ pad2 (minute t) @ '':'' @ pad2 (second t) @
     (if microsecond t = 0 then [] else ''.'' @ pad6 (microsecond t))"

section \<open>The interview scheduler's tools\<close>

subsection \<open>\<^verbatim>\<open>call_contact\<close>\<close>

text \<open>The \<^verbatim>\<open>if/elif\<close> chain that opens \<^verbatim>\<open>call_contact\<close> and sets \<^verbatim>\<open>role\<close>.\<close>

definition call_contact_role :: "string \<Rightarrow> string" where
  "call_contact_role purpose =
     (if contains ''interviewer'' (lower purpose) then ''Interviewer''
      else if contains ''candidate'' (lower purpose) then ''Candidate''
      else if contains ''hr'' (lower purpose) \<or> contains ''recruiter'' (lower purpose)
        then ''HR/Recruiter''
      else ''Contact'')"

definition call_contact :: "string \<Rightarrow> string \<Rightarrow> string \<Rightarrow> console \<Rightarrow> error + (dict \<times> console)" where
  "call_contact contact_name phone_number purpose ins =
     (let role = call_contact_role purpose in
      case input ins of
        Inl e \<Rightarrow> Inl e
      | Inr (outcome, ins') \<Rightarrow>
          (let success = (\<not> contains ''no answer'' (lower outcome) \<and>
                          \<not> contains ''failed'' (lower outcome));
               result =
                 [(''status'', PStr (if success then ''success'' else ''no_answer'')),
                  (''contact_name'', PStr contact_name),
                  (''contact_role'', PStr role),
                  (''phone_number'', PStr phone_number),
                  (''discussion_summary'', PStr outcome),
                  (''duration_minutes'', PInt (if success then 5 else 0)),
                  (''next_steps'', PStr (if \<not> success then ''Follow up via email''
                                         else ''Proceed with scheduling''))]
           in Inr (result, ins')))"

subsection \<open>\<^verbatim>\<open>schedule_calendar\<close>\<close>

definition schedule_calendar ::
  "string \<Rightarrow> string \<Rightarrow> string \<Rightarrow> int \<Rightarrow> string \<Rightarrow> datetime \<Rightarrow> console \<Rightarrow> error + (dict \<times> console)" where
  "schedule_calendar candidate_name date time duration_minutes interview_type now ins =
     (case input ins of
        Inl e \<Rightarrow> Inl e
      | Inr (outcome, ins') \<Rightarrow>
          (let success = (\<not> contains ''conflict'' (lower outcome) \<and>
                          \<not> contains ''fail'' (lower outcome));
               result =
                 [(''status'', PStr (if success then ''success'' else ''conflict'')),
                  (''candidate_name'', PStr candidate_name),
                  (''scheduled_date'', PStr date),
                  (''scheduled_time'', PStr time),
                  (''duration_minutes'', PInt duration_minutes),
                  (''interview_type'', PStr interview_type),
                  (''confirmation'', PStr outcome),
                  (''meeting_id'', PStr (''INT_'' @ strftime_YmdHM now))]
           in Inr (result, ins')))"

subsection \<open>\<^verbatim>\<open>send_email\<close>\<close>

text \<open>
  The chain that opens \<^verbatim>\<open>send_email\<close>: each branch asks whether
  \<^verbatim>\<open>any(word in message_type.lower() or word in subject.lower() for word in [...])\<close>.
\<close>

definition send_email_role :: "string \<Rightarrow> string \<Rightarrow> string" where
  "send_email_role message_type subject =
     (let hit = (\<lambda>word. contains word (lower message_type) \<or> contains word (lower subject)) in
      if list_ex hit [''interviewer'', ''interview availability''] then ''Interviewer''
      else if list_ex hit [''candidate'', ''applicant''] then ''Candidate''
      else if list_ex hit [''hr'', ''recruiter'', ''recruitment''] then ''HR/Recruiter''
      else ''Recipient'')"

text \<open>
  The reply is asked for only after a delivery that did not fail, and the response time only
  after a reply that is not blank: the tool reads one, two or three lines.
\<close>

definition send_email ::
  "string \<Rightarrow> string \<Rightarrow> string \<Rightarrow> string \<Rightarrow> datetime \<Rightarrow> console \<Rightarrow> error + (dict \<times> console)" where
  "send_email recipient_email subject message_type additional_details now ins =
     (let role = send_email_role message_type subject in
      case input ins of
        Inl e \<Rightarrow> Inl e
      | Inr (outcome, ins1) \<Rightarrow>
          (let delivered = (\<not> contains ''fail'' (lower outcome) \<and>
                            \<not> contains ''error'' (lower outcome));
               replied =
                 (if delivered then
                    (case input ins1 of
                       Inl e \<Rightarrow> Inl e
                     | Inr (email_response, ins2) \<Rightarrow>
                         if strip email_response \<noteq> [] then
                           (case input ins2 of
                              Inl e \<Rightarrow> Inl e
                            | Inr (response_time, ins3) \<Rightarrow>
                                Inr (email_response, response_time, ins3))
                         else Inr (''No response received'', ''N/A'', ins2))
                  else Inr (''Email not delivered'', ''N/A'', ins1))
           in case replied of
                Inl e \<Rightarrow> Inl e
              | Inr (email_response, response_time, ins') \<Rightarrow>
                  Inr ([(''status'', PStr (if delivered then ''success'' else ''failed'')),
                        (''recipient_email'', PStr recipient_email),
                        (''recipient_role'', PStr role),
                        (''subject'', PStr subject),
                        (''message_type'', PStr message_type),
                        (''delivery_confirmation'', PStr outcome),
                        (''recipient_response'', PStr email_response),
                        (''response_time'', PStr response_time),
                        (''sent_at'', PStr (isoformat now))], ins')))"

subsection \<open>\<^verbatim>\<open>human_in_loop\<close>\<close>

definition human_in_loop ::
  "string \<Rightarrow> string \<Rightarrow> string \<Rightarrow> datetime \<Rightarrow> console \<Rightarrow> error + (dict \<times> console)" where
  "human_in_loop situation context suggested_actions now ins =
     (case input ins of
        Inl e \<Rightarrow> Inl e
      | Inr (decision, ins1) \<Rightarrow>
          (case input ins1 of
             Inl e \<Rightarrow> Inl e
           | Inr (additional_instructions, ins2) \<Rightarrow>
               Inr ([(''status'', PStr (if \<not> contains ''cancel'' (lower decision)
                                        then ''resolved'' else ''cancelled'')),
                     (''decision'', PStr decision),
                     (''additional_instructions'',
                        PStr (if additional_instructions \<noteq> [] then additional_instructions
                              else ''None'')),
                     (''timestamp'', PStr (isoformat now))], ins2)))"

section \<open>The SQL tool\<close>

text \<open>
  \<^verbatim>\<open>execute_sql_query\<close> calls two functions of the Python library on the text it reads,
  \<^verbatim>\<open>json.loads\<close> and \<^verbatim>\<open>int\<close>. They are arguments of the model: \<open>json_loads\<close>
  returns the parsed value, or says that it raised \<^verbatim>\<open>JSONDecodeError\<close>, or gives the
  message of any other exception it raised; \<open>int_of_digits\<close> returns the number, or the
  message of the \<^verbatim>\<open>ValueError\<close> it raised (as \<^verbatim>\<open>int\<close> does on a superscript digit,
  which \<^verbatim>\<open>isdigit\<close> lets through). A parsed object is the list of its items, each key
  once.
\<close>

datatype loads_result = Loaded pyval | JSONDecodeError | Raised string

record runtime =
  json_loads :: "string \<Rightarrow> loads_result"
  int_of_digits :: "string \<Rightarrow> string + int"

text \<open>
  A digit for \<^verbatim>\<open>str.isdigit\<close>: one of \<^verbatim>\<open>0-9\<close>, or one of the superscripts two, three
  and one (\<^verbatim>\<open>0xb2\<close>, \<^verbatim>\<open>0xb3\<close>, \<^verbatim>\<open>0xb9\<close>).
\<close>

definition isdigit_char :: "char \<Rightarrow> bool" where
  "isdigit_char c =
     (let n = (of_char c :: nat) in (48 \<le> n \<and> n \<le> 57) \<or> n = 178 \<or> n = 179 \<or> n = 185)"

text \<open>\<^verbatim>\<open>s.isdigit()\<close>: the text is not empty and every character of it is a digit.\<close>

definition isdigit :: "string \<Rightarrow> bool" where
  "isdigit s = (s \<noteq> [] \<and> list_all isdigit_char s)"

text \<open>\<^verbatim>\<open>len(v)\<close>, or the message of the \<^verbatim>\<open>TypeError\<close> for a value that has no length.\<close>

fun py_len :: "pyval \<Rightarrow> string + nat" where
  "py_len (PStr s) = Inr (length s)"
| "py_len (PList xs) = Inr (length xs)"
| "py_len (PDict d) = Inr (length d)"
| "py_len PNone = Inl ''object of type 'NoneType' has no len()''"
| "py_len (PBool b) = Inl ''object of type 'bool' has no len()''"
| "py_len (PInt i) = Inl ''object of type 'int' has no len()''"
| "py_len (PFloat f) = Inl ''object of type 'float' has no len()''"

text \<open>
  \<^verbatim>\<open>json.loads(text)\<close> inside its own \<^verbatim>\<open>try\<close>: a \<^verbatim>\<open>JSONDecodeError\<close> turns into
  \<^verbatim>\<open>{"raw_output": text}\<close>, any other exception goes on to the outer handler.
\<close>

definition loads_or_raw :: "runtime \<Rightarrow> string \<Rightarrow> string + pyval" where
  "loads_or_raw rt text =
     (case json_loads rt text of
        Loaded v \<Rightarrow> Inr v
      | JSONDecodeError \<Rightarrow> Inr (PDict [(''raw_output'', PStr text)])
      | Raised msg \<Rightarrow> Inl msg)"

text \<open>
  The value of the \<^verbatim>\<open>row_count\<close> key:
  \<^verbatim>\<open>len(results.get("rows", [])) if isinstance(results, dict) and "rows" in results else None\<close>.
\<close>

definition row_count :: "pyval \<Rightarrow> string + pyval" where
  "row_count results =
     (case results of
        PDict d \<Rightarrow>
          (case map_of d ''rows'' of
             Some rows \<Rightarrow> (case py_len rows of Inl msg \<Rightarrow> Inl msg | Inr n \<Rightarrow> Inr (PInt (int n)))
           | None \<Rightarrow> Inr PNone)
      | _ \<Rightarrow> Inr PNone)"

text \<open>
  The body of the outer \<^verbatim>\<open>try\<close>: the result dict, or \<^verbatim>\<open>str(e)\<close> of the exception
  that \<^verbatim>\<open>except Exception as e\<close> catches, with the lines left on the console. An
  \<^verbatim>\<open>EOFError\<close> of the second \<^verbatim>\<open>input\<close> is caught there too.
\<close>

definition query_results ::
  "runtime \<Rightarrow> string \<Rightarrow> string \<Rightarrow> datetime \<Rightarrow> console \<Rightarrow> (string + dict) \<times> console" where
  "query_results rt query outcome now ins1 =
     (let read =
        (if lower outcome = ''success'' then
           (case input ins1 of
              Inl e \<Rightarrow> (Inl ''EOF when reading a line'', ins1)
            | Inr (results_input, ins2) \<Rightarrow>
                if isdigit results_input then
                  (case int_of_digits rt results_input of
                     Inl msg \<Rightarrow> (Inl msg, ins2)
                   | Inr n \<Rightarrow> (Inr (PDict [(''row_count'', PInt n), (''rows'', PList [])]), ins2))
                else (loads_or_raw rt results_input, ins2))
         else (loads_or_raw rt outcome, ins1))
      in case read of
           (Inl msg, ins') \<Rightarrow> (Inl msg, ins')
         | (Inr results, ins') \<Rightarrow>
             (case row_count results of
                Inl msg \<Rightarrow> (Inl msg, ins')
              | Inr n \<Rightarrow>
                  (Inr [(''status'', PStr ''success''),
                        (''query'', PStr query),
                        (''results'', results),
                        (''row_count'', n),
                        (''executed_at'', PStr (isoformat now))], ins')))"

definition execute_sql_query ::
  "runtime \<Rightarrow> string \<Rightarrow> string \<Rightarrow> datetime \<Rightarrow> console \<Rightarrow> error + (dict \<times> console)" where
  "execute_sql_query rt query explanation now ins =
     (case input ins of
        Inl e \<Rightarrow> Inl e
      | Inr (outcome, ins1) \<Rightarrow>
          if startswith (lower outcome) ''error'' then
            (let error_msg = (if length outcome > 6 then strip (drop 6 outcome)
                              else ''Unknown database error'')
             in Inr ([(''status'', PStr ''error''),
                      (''query'', PStr query),
                      (''error_message'', PStr error_msg),
                      (''suggestion'', PStr ''Check table names, column names, and syntax''),
                      (''executed_at'', PStr (isoformat now))], ins1))
          else
            (case query_results rt query outcome now ins1 of
               (Inr result, ins') \<Rightarrow> Inr (result, ins')
             | (Inl msg, ins') \<Rightarrow>
                 Inr ([(''status'', PStr ''error''),
                       (''query'', PStr query),
                       (''error_message'', PStr (''Result parsing error: '' @ msg)),
                       (''executed_at'', PStr (isoformat now))], ins')))"

section \<open>The role table as the specification words it\<close>

text \<open>
  The specification gives one table for calls and emails, read on one text (the purpose
  of a call, the subject of an email) and closed by a default per channel. This
  definition follows those words, to be compared with \<open>call_contact_role\<close> and
  \<open>send_email_role\<close>.
\<close>

definition spec_role :: "string \<Rightarrow> string \<Rightarrow> string" where
  "spec_role fallback text =
     (if contains ''interviewer'' (lower text) then ''Interviewer''
      else if contains ''candidate'' (lower text) \<or> contains ''applicant'' (lower text)
        then ''Candidate''
      else if contains ''hr'' (lower text) \<or> contains ''recruiter'' (lower text)
        then ''HR/Recruiter''
      else fallback)"

section \<open>Reading a tool's return\<close>

text \<open>
  \<open>returned res key\<close> is the value under \<open>key\<close> in the dict a tool returned, and
  \<open>unread res\<close> the lines it left on the console; both are \<open>None\<close> when an exception
  escaped the tool instead.
\<close>

definition returned :: "error + (dict \<times> console) \<Rightarrow> string \<Rightarrow> pyval option" where
  "returned res key = (case res of Inl e \<Rightarrow> None | Inr (r, rest) \<Rightarrow> map_of r key)"

definition unread :: "error + (dict \<times> console) \<Rightarrow> console option" where
  "unread res = (case res of Inl e \<Rightarrow> None | Inr (r, rest) \<Rightarrow> Some rest)"

section \<open>The string methods do what Python's do\<close>

lemma startswith_iff: "startswith s p \<longleftrightarrow> (\<exists>ss. s = p @ ss)"
  by (induction s p rule: startswith.induct) auto

text \<open>\<open>contains sub s\<close> holds exactly when \<open>sub\<close> is a run of consecutive characters of \<open>s\<close>.\<close>

lemma contains_iff: "contains sub s \<longleftrightarrow> (\<exists>ps ss. s = ps @ sub @ ss)"
proof (induction s)
  case Nil
  then show ?case by auto
next
  case (Cons c cs)
  have "(\<exists>ps ss. c # cs = ps @ sub @ ss) \<longleftrightarrow>
        (\<exists>ss. c # cs = sub @ ss) \<or> (\<exists>ps ss. cs = ps @ sub @ ss)"
    by (auto simp: Cons_eq_append_conv)
  with Cons show ?case
    by (simp add: startswith_iff)
qed

lemma length_lower: "length (lower s) = length s"
  by (simp add: lower_def)

text \<open>\<^verbatim>\<open>s.strip()\<close> is empty exactly for a text of whitespace only (the empty text too).\<close>

lemma strip_empty_iff: "strip s = [] \<longleftrightarrow> list_all isspace s"
proof
  assume "strip s = []"
  then have all: "\<forall>x\<in>set (dropWhile isspace s). isspace x"
    by (simp add: strip_def)
  have "dropWhile isspace s = []"
  proof (rule ccontr)
    assume ne: "dropWhile isspace s \<noteq> []"
    then have "\<not> isspace (hd (dropWhile isspace s))"
      by (rule hd_dropWhile)
    moreover from ne have "hd (dropWhile isspace s) \<in> set (dropWhile isspace s)"
      by simp
    ultimately show False
      using all by blast
  qed
  then show "list_all isspace s"
    by (simp add: list_all_iff)
next
  assume "list_all isspace s"
  then show "strip s = []"
    by (auto simp: strip_def list_all_iff dest: set_dropWhileD)
qed

section \<open>Outcome classification\<close>

text \<open>
  Claim C1. Whatever outcome text a contact call is given, the returned record's status
  is \<^verbatim>\<open>no_answer\<close> if the lowercased text contains \<^verbatim>\<open>no answer\<close> or \<^verbatim>\<open>failed\<close>,
  and \<^verbatim>\<open>success\<close> for every other text; the empty text is among the others.
\<close>

theorem call_contact_status:
  "returned (call_contact contact_name phone_number purpose (outcome # ins)) ''status'' =
     Some (PStr (if contains ''no answer'' (lower outcome) \<or> contains ''failed'' (lower outcome)
                 then ''no_answer'' else ''success'')) \<and>
   returned (call_contact contact_name phone_number purpose ([] # ins)) ''status'' =
     Some (PStr ''success'')"
  by (simp add: call_contact_def input_def returned_def lower_def)

theorem call_contact_status_witness:
  "returned (call_contact ''Priya Rao'' ''555-0101'' ''ask the interviewer for slots''
      [''No Answer, voicemail left'']) ''status'' = Some (PStr ''no_answer'') \<and>
   returned (call_contact ''Priya Rao'' ''555-0101'' ''ask the interviewer for slots''
      [''Available Tuesday 2pm and Thursday 10am'']) ''status'' = Some (PStr ''success'')"
proof -
  have neg: "contains ''no answer'' (lower ''No Answer, voicemail left'')"
    by code_simp
  have pos: "\<not> contains ''no answer'' (lower ''Available Tuesday 2pm and Thursday 10am'')"
    "\<not> contains ''failed'' (lower ''Available Tuesday 2pm and Thursday 10am'')"
    by code_simp+
  show ?thesis
    using call_contact_status [of "''Priya Rao''" "''555-0101''" "''ask the interviewer for slots''"
        "''No Answer, voicemail left''" "[]"]
      call_contact_status [of "''Priya Rao''" "''555-0101''" "''ask the interviewer for slots''"
        "''Available Tuesday 2pm and Thursday 10am''" "[]"]
    by (simp only: neg pos simp_thms if_True if_False)
qed

text \<open>
  Claim C2. Whatever outcome text a scheduling attempt is given, the returned record's
  status is \<^verbatim>\<open>conflict\<close> if the lowercased text contains \<^verbatim>\<open>conflict\<close> or
  \<^verbatim>\<open>fail\<close>, and \<^verbatim>\<open>success\<close> for every other text.
\<close>

theorem schedule_calendar_status:
  "returned (schedule_calendar candidate_name date time duration_minutes interview_type now
      (outcome # ins)) ''status'' =
     Some (PStr (if contains ''conflict'' (lower outcome) \<or> contains ''fail'' (lower outcome)
                 then ''conflict'' else ''success''))"
  by (simp add: schedule_calendar_def input_def returned_def)

theorem schedule_calendar_status_witness:
  "returned (schedule_calendar ''Sam Lee'' ''2025-06-06'' ''15:00'' 60 ''technical''
      \<lparr>year = 2025, month = 6, day = 3, hour = 14, minute = 5, second = 9, microsecond = 0\<rparr>
      [''Conflict with another interview'']) ''status'' = Some (PStr ''conflict'') \<and>
   returned (schedule_calendar ''Sam Lee'' ''2025-06-06'' ''15:00'' 60 ''technical''
      \<lparr>year = 2025, month = 6, day = 3, hour = 14, minute = 5, second = 9, microsecond = 0\<rparr>
      [''confirmed for Friday 3pm'']) ''status'' = Some (PStr ''success'')"
proof -
  have neg: "contains ''conflict'' (lower ''Conflict with another interview'')"
    by code_simp
  have pos: "\<not> contains ''conflict'' (lower ''confirmed for Friday 3pm'')"
    "\<not> contains ''fail'' (lower ''confirmed for Friday 3pm'')"
    by code_simp+
  show ?thesis
    using schedule_calendar_status [of "''Sam Lee''" "''2025-06-06''" "''15:00''" 60 "''technical''"
        "\<lparr>year = 2025, month = 6, day = 3, hour = 14, minute = 5, second = 9, microsecond = 0\<rparr>"
        "''Conflict with another interview''" "[]"]
      schedule_calendar_status [of "''Sam Lee''" "''2025-06-06''" "''15:00''" 60 "''technical''"
        "\<lparr>year = 2025, month = 6, day = 3, hour = 14, minute = 5, second = 9, microsecond = 0\<rparr>"
        "''confirmed for Friday 3pm''" "[]"]
    by (simp only: neg pos simp_thms if_True if_False)
qed

text \<open>
  Claim C3. Whatever decision text an escalation step is given (followed by its line of
  additional instructions), the returned record's status is \<^verbatim>\<open>cancelled\<close> if the
  lowercased decision contains \<^verbatim>\<open>cancel\<close>, and \<^verbatim>\<open>resolved\<close> for every other decision.
\<close>

theorem human_in_loop_status:
  "returned (human_in_loop situation context suggested_actions now (decision # extra # ins))
      ''status'' =
     Some (PStr (if contains ''cancel'' (lower decision) then ''cancelled'' else ''resolved''))"
  by (simp add: human_in_loop_def input_def returned_def)

theorem human_in_loop_status_witness:
  "returned (human_in_loop ''slot conflict at confirmation'' ''two interviews overlap'' []
      \<lparr>year = 2025, month = 6, day = 3, hour = 14, minute = 5, second = 9, microsecond = 0\<rparr>
      [''Cancel the interview, candidate withdrew'', []]) ''status'' = Some (PStr ''cancelled'') \<and>
   returned (human_in_loop ''slot conflict at confirmation'' ''two interviews overlap'' []
      \<lparr>year = 2025, month = 6, day = 3, hour = 14, minute = 5, second = 9, microsecond = 0\<rparr>
      [''move it to Monday'', ''tell the candidate'']) ''status'' = Some (PStr ''resolved'')"
proof -
  have neg: "contains ''cancel'' (lower ''Cancel the interview, candidate withdrew'')"
    by code_simp
  have pos: "\<not> contains ''cancel'' (lower ''move it to Monday'')"
    by code_simp
  show ?thesis
    using human_in_loop_status [of "''slot conflict at confirmation''" "''two interviews overlap''"
        "[]"
        "\<lparr>year = 2025, month = 6, day = 3, hour = 14, minute = 5, second = 9, microsecond = 0\<rparr>"
        "''Cancel the interview, candidate withdrew''" "[]" "[]"]
      human_in_loop_status [of "''slot conflict at confirmation''" "''two interviews overlap''"
        "[]"
        "\<lparr>year = 2025, month = 6, day = 3, hour = 14, minute = 5, second = 9, microsecond = 0\<rparr>"
        "''move it to Monday''" "''tell the candidate''" "[]"]
    by (simp only: neg pos simp_thms if_True if_False)
qed

text \<open>
  Claim C4. The status is a function of the outcome text alone: two invocations of the same
  tool (contact call, scheduling, email, escalation) that read the same outcome text and
  both return a record return the same status, whatever their other arguments, the clock
  and the lines that follow on the console.
\<close>

theorem status_depends_on_outcome_only:
  "(returned (call_contact name1 phone1 purpose1 (outcome # ins1)) ''status'' = Some s1 \<and>
    returned (call_contact name2 phone2 purpose2 (outcome # ins2)) ''status'' = Some s2
      \<longrightarrow> s1 = s2) \<and>
   (returned (schedule_calendar cand1 date1 time1 dur1 type1 now1 (outcome # ins1)) ''status'' =
      Some s1 \<and>
    returned (schedule_calendar cand2 date2 time2 dur2 type2 now2 (outcome # ins2)) ''status'' =
      Some s2
      \<longrightarrow> s1 = s2) \<and>
   (returned (send_email rcpt1 subj1 mtype1 details1 now1 (outcome # ins1)) ''status'' = Some s1 \<and>
    returned (send_email rcpt2 subj2 mtype2 details2 now2 (outcome # ins2)) ''status'' = Some s2
      \<longrightarrow> s1 = s2) \<and>
   (returned (human_in_loop sit1 ctx1 sugg1 now1 (outcome # ins1)) ''status'' = Some s1 \<and>
    returned (human_in_loop sit2 ctx2 sugg2 now2 (outcome # ins2)) ''status'' = Some s2
      \<longrightarrow> s1 = s2)"
proof (intro conjI impI)
  assume "returned (call_contact name1 phone1 purpose1 (outcome # ins1)) ''status'' = Some s1 \<and>
    returned (call_contact name2 phone2 purpose2 (outcome # ins2)) ''status'' = Some s2"
  then show "s1 = s2"
    by (auto simp: call_contact_def input_def returned_def Let_def)
next
  assume "returned (schedule_calendar cand1 date1 time1 dur1 type1 now1 (outcome # ins1)) ''status'' =
      Some s1 \<and>
    returned (schedule_calendar cand2 date2 time2 dur2 type2 now2 (outcome # ins2)) ''status'' =
      Some s2"
  then show "s1 = s2"
    by (auto simp: schedule_calendar_def input_def returned_def Let_def)
next
  assume "returned (send_email rcpt1 subj1 mtype1 details1 now1 (outcome # ins1)) ''status'' = Some s1 \<and>
    returned (send_email rcpt2 subj2 mtype2 details2 now2 (outcome # ins2)) ''status'' = Some s2"
  then show "s1 = s2"
    by (auto simp: send_email_def input_def returned_def Let_def split: list.splits if_splits)
next
  assume "returned (human_in_loop sit1 ctx1 sugg1 now1 (outcome # ins1)) ''status'' = Some s1 \<and>
    returned (human_in_loop sit2 ctx2 sugg2 now2 (outcome # ins2)) ''status'' = Some s2"
  then show "s1 = s2"
    by (auto simp: human_in_loop_def input_def returned_def split: list.splits)
qed

text \<open>
  At the outcome text \<^verbatim>\<open>Delivery failed\<close>, read by two email sends that differ in
  every other argument, in the clock and in what follows on the console: both return, so
  the statuses agree.
\<close>

theorem status_depends_on_outcome_only_witness:
  "returned (send_email ''priya@example.com'' ''Availability'' ''request'' []
      \<lparr>year = 2025, month = 6, day = 3, hour = 14, minute = 5, second = 9, microsecond = 0\<rparr>
      [''Delivery failed'']) ''status'' = Some (PStr ''failed'') \<and>
   returned (send_email ''sam@example.com'' ''Your interview'' ''invitation'' ''bring ID''
      \<lparr>year = 2026, month = 1, day = 20, hour = 9, minute = 30, second = 0, microsecond = 250\<rparr>
      [''Delivery failed'', ''later'']) ''status'' =
   returned (send_email ''priya@example.com'' ''Availability'' ''request'' []
      \<lparr>year = 2025, month = 6, day = 3, hour = 14, minute = 5, second = 9, microsecond = 0\<rparr>
      [''Delivery failed'']) ''status''"
proof -
  have hit: "contains ''fail'' (lower ''Delivery failed'')"
    by code_simp
  have first: "returned (send_email ''priya@example.com'' ''Availability'' ''request'' []
      \<lparr>year = 2025, month = 6, day = 3, hour = 14, minute = 5, second = 9, microsecond = 0\<rparr>
      [''Delivery failed'']) ''status'' = Some (PStr ''failed'')"
    by (simp add: send_email_def input_def returned_def Let_def hit)
  have "returned (send_email ''sam@example.com'' ''Your interview'' ''invitation'' ''bring ID''
      \<lparr>year = 2026, month = 1, day = 20, hour = 9, minute = 30, second = 0, microsecond = 250\<rparr>
      [''Delivery failed'', ''later'']) ''status'' \<noteq> None"
    by (simp add: send_email_def input_def returned_def Let_def hit)
  then obtain s where second: "returned (send_email ''sam@example.com'' ''Your interview''
      ''invitation'' ''bring ID''
      \<lparr>year = 2026, month = 1, day = 20, hour = 9, minute = 30, second = 0, microsecond = 250\<rparr>
      [''Delivery failed'', ''later'']) ''status'' = Some s"
    by blast
  from status_depends_on_outcome_only [THEN conjunct2, THEN conjunct2, THEN conjunct1,
      rule_format, OF conjI, OF first second]
  have "PStr ''failed'' = s" .
  with first second show ?thesis
    by (simp only:)
qed

section \<open>What a contact call reports besides the status\<close>

text \<open>
  Claim C6. For every contact call, the returned record's next step is
  \<^verbatim>\<open>Follow up via email\<close> exactly when its status is \<^verbatim>\<open>no_answer\<close> and
  \<^verbatim>\<open>Proceed with scheduling\<close> exactly when its status is \<^verbatim>\<open>success\<close>; the status is
  one of the two.
\<close>

theorem call_contact_next_steps:
  "(returned (call_contact contact_name phone_number purpose (outcome # ins)) ''next_steps'' =
      Some (PStr ''Follow up via email'')) =
   (returned (call_contact contact_name phone_number purpose (outcome # ins)) ''status'' =
      Some (PStr ''no_answer'')) \<and>
   (returned (call_contact contact_name phone_number purpose (outcome # ins)) ''next_steps'' =
      Some (PStr ''Proceed with scheduling'')) =
   (returned (call_contact contact_name phone_number purpose (outcome # ins)) ''status'' =
      Some (PStr ''success'')) \<and>
   (returned (call_contact contact_name phone_number purpose (outcome # ins)) ''status'' =
      Some (PStr ''no_answer'') \<or>
    returned (call_contact contact_name phone_number purpose (outcome # ins)) ''status'' =
      Some (PStr ''success''))"
  by (simp add: call_contact_def input_def returned_def)

theorem call_contact_next_steps_witness:
  "returned (call_contact ''Priya Rao'' ''555-0101'' ''ask the interviewer for slots''
      [''call failed, line busy'']) ''next_steps'' = Some (PStr ''Follow up via email'') \<and>
   returned (call_contact ''Sam Lee'' ''555-0102'' ''candidate preference''
      [''prefers Thursday'']) ''next_steps'' = Some (PStr ''Proceed with scheduling'')"
proof -
  have hit: "contains ''failed'' (lower ''call failed, line busy'')"
    by code_simp
  have miss: "\<not> contains ''no answer'' (lower ''prefers Thursday'')"
    "\<not> contains ''failed'' (lower ''prefers Thursday'')"
    by code_simp+
  have neg: "returned (call_contact ''Priya Rao'' ''555-0101'' ''ask the interviewer for slots''
      [''call failed, line busy'']) ''status'' = Some (PStr ''no_answer'')"
    by (simp add: call_contact_def input_def returned_def hit)
  have pos: "returned (call_contact ''Sam Lee'' ''555-0102'' ''candidate preference''
      [''prefers Thursday'']) ''status'' = Some (PStr ''success'')"
    by (simp add: call_contact_def input_def returned_def miss)
  show ?thesis
    using call_contact_next_steps [of "''Priya Rao''" "''555-0101''"
        "''ask the interviewer for slots''" "''call failed, line busy''" "[]"]
      call_contact_next_steps [of "''Sam Lee''" "''555-0102''" "''candidate preference''"
        "''prefers Thursday''" "[]"]
    by (simp only: neg pos simp_thms)
qed

text \<open>
  Claim C9. For every contact call, the returned record's duration is 5 minutes when its
  status is \<^verbatim>\<open>success\<close> and 0 when it is \<^verbatim>\<open>no_answer\<close>, and one of the two holds:
  the duration is positive exactly for a call classified as successful.
\<close>

theorem call_contact_duration:
  "((returned (call_contact contact_name phone_number purpose (outcome # ins)) ''status'' =
       Some (PStr ''success'') \<and>
     returned (call_contact contact_name phone_number purpose (outcome # ins)) ''duration_minutes'' =
       Some (PInt 5)) \<or>
    (returned (call_contact contact_name phone_number purpose (outcome # ins)) ''status'' =
       Some (PStr ''no_answer'') \<and>
     returned (call_contact contact_name phone_number purpose (outcome # ins)) ''duration_minutes'' =
       Some (PInt 0))) \<and>
   (\<exists>d. returned (call_contact contact_name phone_number purpose (outcome # ins))
           ''duration_minutes'' = Some (PInt d) \<and>
        (0 < d) =
        (returned (call_contact contact_name phone_number purpose (outcome # ins)) ''status'' =
           Some (PStr ''success'')))"
  by (simp add: call_contact_def input_def returned_def)

theorem call_contact_duration_witness:
  "returned (call_contact ''Priya Rao'' ''555-0101'' ''ask the interviewer for slots''
      [''No answer'']) ''duration_minutes'' = Some (PInt 0) \<and>
   returned (call_contact ''Sam Lee'' ''555-0102'' ''candidate preference''
      [''prefers Thursday'']) ''duration_minutes'' = Some (PInt 5)"
proof -
  have hit: "contains ''no answer'' (lower ''No answer'')"
    by code_simp
  have miss: "\<not> contains ''no answer'' (lower ''prefers Thursday'')"
    "\<not> contains ''failed'' (lower ''prefers Thursday'')"
    by code_simp+
  have neg: "returned (call_contact ''Priya Rao'' ''555-0101'' ''ask the interviewer for slots''
      [''No answer'']) ''status'' = Some (PStr ''no_answer'')"
    by (simp add: call_contact_def input_def returned_def hit)
  have pos: "returned (call_contact ''Sam Lee'' ''555-0102'' ''candidate preference''
      [''prefers Thursday'']) ''status'' = Some (PStr ''success'')"
    by (simp add: call_contact_def input_def returned_def miss)
  have "returned (call_contact ''Priya Rao'' ''555-0101'' ''ask the interviewer for slots''
      [''No answer'']) ''duration_minutes'' = Some (PInt 0)"
    using call_contact_duration [of "''Priya Rao''" "''555-0101''"
        "''ask the interviewer for slots''" "''No answer''" "[]"]
    by (simp only: neg) simp
  moreover have "returned (call_contact ''Sam Lee'' ''555-0102'' ''candidate preference''
      [''prefers Thursday'']) ''duration_minutes'' = Some (PInt 5)"
    using call_contact_duration [of "''Sam Lee''" "''555-0102''" "''candidate preference''"
        "''prefers Thursday''" "[]"]
    by (simp only: pos) simp
  ultimately show ?thesis
    by (rule conjI)
qed

text \<open>
  Claim C7. An email send whose delivery text contains neither \<^verbatim>\<open>fail\<close> nor
  \<^verbatim>\<open>error\<close> (case-insensitively) and whose reply line is empty or whitespace only
  (every character of it one that \<^verbatim>\<open>str.isspace\<close> accepts) returns status
  \<^verbatim>\<open>success\<close>, recipient response \<^verbatim>\<open>No response received\<close> and response time
  \<^verbatim>\<open>N/A\<close>; it reads no third line.
\<close>

theorem send_email_blank_reply:
  assumes "\<not> contains ''fail'' (lower outcome)" and "\<not> contains ''error'' (lower outcome)"
    and "list_all isspace reply"
  shows "returned (send_email recipient_email subject message_type additional_details now
            (outcome # reply # ins)) ''status'' = Some (PStr ''success'') \<and>
         returned (send_email recipient_email subject message_type additional_details now
            (outcome # reply # ins)) ''recipient_response'' = Some (PStr ''No response received'') \<and>
         returned (send_email recipient_email subject message_type additional_details now
            (outcome # reply # ins)) ''response_time'' = Some (PStr ''N/A'') \<and>
         unread (send_email recipient_email subject message_type additional_details now
            (outcome # reply # ins)) = Some ins"
  using assms
  by (simp add: send_email_def input_def returned_def unread_def strip_empty_iff)

theorem send_email_blank_reply_witness:
  "returned (send_email ''sam@example.com'' ''Your interview'' ''invitation'' []
      \<lparr>year = 2025, month = 6, day = 3, hour = 14, minute = 5, second = 9, microsecond = 0\<rparr>
      [''Delivered'', ''  '', ''next tool'']) ''status'' = Some (PStr ''success'') \<and>
   returned (send_email ''sam@example.com'' ''Your interview'' ''invitation'' []
      \<lparr>year = 2025, month = 6, day = 3, hour = 14, minute = 5, second = 9, microsecond = 0\<rparr>
      [''Delivered'', ''  '', ''next tool'']) ''recipient_response'' =
     Some (PStr ''No response received'') \<and>
   returned (send_email ''sam@example.com'' ''Your interview'' ''invitation'' []
      \<lparr>year = 2025, month = 6, day = 3, hour = 14, minute = 5, second = 9, microsecond = 0\<rparr>
      [''Delivered'', ''  '', ''next tool'']) ''response_time'' = Some (PStr ''N/A'') \<and>
   unread (send_email ''sam@example.com'' ''Your interview'' ''invitation'' []
      \<lparr>year = 2025, month = 6, day = 3, hour = 14, minute = 5, second = 9, microsecond = 0\<rparr>
      [''Delivered'', ''  '', ''next tool'']) = Some [''next tool''] \<and>
   returned (send_email ''sam@example.com'' ''Your interview'' ''invitation'' []
      \<lparr>year = 2025, month = 6, day = 3, hour = 14, minute = 5, second = 9, microsecond = 0\<rparr>
      [''Delivered'', [CHR 0xA0, CHR 0x85], ''next tool'']) ''recipient_response'' =
     Some (PStr ''No response received'') \<and>
   unread (send_email ''sam@example.com'' ''Your interview'' ''invitation'' []
      \<lparr>year = 2025, month = 6, day = 3, hour = 14, minute = 5, second = 9, microsecond = 0\<rparr>
      [''Delivered'', [CHR 0xA0, CHR 0x85], ''next tool'']) = Some [''next tool'']"
proof -
  have delivered: "\<not> contains ''fail'' (lower ''Delivered'')"
    "\<not> contains ''error'' (lower ''Delivered'')"
    by code_simp+
  have blank: "list_all isspace ''  ''"
    by code_simp
  have nbsp: "list_all isspace [CHR 0xA0, CHR 0x85]"
    by code_simp
  show ?thesis
    using send_email_blank_reply [OF delivered blank, of "''sam@example.com''" "''Your interview''"
        "''invitation''" "[]"
        "\<lparr>year = 2025, month = 6, day = 3, hour = 14, minute = 5, second = 9, microsecond = 0\<rparr>"
        "[''next tool'']"]
      send_email_blank_reply [OF delivered nbsp, of "''sam@example.com''" "''Your interview''"
        "''invitation''" "[]"
        "\<lparr>year = 2025, month = 6, day = 3, hour = 14, minute = 5, second = 9, microsecond = 0\<rparr>"
        "[''next tool'']"]
    by (simp only: simp_thms)
qed

section \<open>The role label\<close>

text \<open>The role of an email does not depend on the console: it is set before any line is read.\<close>

lemma send_email_role_any_console:
  assumes "send_email recipient_email subject message_type additional_details now ins = Inr (r, rest)"
  shows "map_of r ''recipient_role'' = Some (PStr (send_email_role message_type subject))"
  using assms
  by (auto simp: send_email_def input_def Let_def split: list.splits if_splits)

text \<open>
  Claim C5, as the specification states it, gives calls and emails one table read on one
  text: \<^verbatim>\<open>interviewer\<close>, then \<^verbatim>\<open>candidate\<close> or \<^verbatim>\<open>applicant\<close>, then \<^verbatim>\<open>hr\<close> or
  \<^verbatim>\<open>recruiter\<close>, then the channel's default. The code has two tables. A call whose
  purpose says only \<^verbatim>\<open>Applicant\<close> is a \<^verbatim>\<open>Contact\<close>; an email is an
  \<^verbatim>\<open>HR/Recruiter\<close> one by the keyword \<^verbatim>\<open>recruitment\<close>, an \<^verbatim>\<open>Interviewer\<close> one by
  \<^verbatim>\<open>interview availability\<close>, and a \<^verbatim>\<open>Candidate\<close> one by a keyword of its message
  type alone.
\<close>

theorem role_table_counterexample:
  "returned (call_contact ''Sam Lee'' ''555-0102'' ''Applicant screening call''
      [''spoke for ten minutes'']) ''contact_role'' = Some (PStr ''Contact'') \<and>
   spec_role ''Contact'' ''Applicant screening call'' = ''Candidate'' \<and>
   returned (send_email ''dana@example.com'' ''Recruitment drive'' ''update'' []
      \<lparr>year = 2025, month = 6, day = 3, hour = 14, minute = 5, second = 9, microsecond = 0\<rparr>
      [''sent'', []]) ''recipient_role'' = Some (PStr ''HR/Recruiter'') \<and>
   spec_role ''Recipient'' ''Recruitment drive'' = ''Recipient'' \<and>
   returned (send_email ''priya@example.com'' ''Interview availability request'' ''request'' []
      \<lparr>year = 2025, month = 6, day = 3, hour = 14, minute = 5, second = 9, microsecond = 0\<rparr>
      [''sent'', []]) ''recipient_role'' = Some (PStr ''Interviewer'') \<and>
   spec_role ''Recipient'' ''Interview availability request'' = ''Recipient'' \<and>
   returned (send_email ''sam@example.com'' ''Next steps'' ''candidate_invitation'' []
      \<lparr>year = 2025, month = 6, day = 3, hour = 14, minute = 5, second = 9, microsecond = 0\<rparr>
      [''sent'', []]) ''recipient_role'' = Some (PStr ''Candidate'') \<and>
   spec_role ''Recipient'' ''Next steps'' = ''Recipient''"
proof -
  have code: "call_contact_role ''Applicant screening call'' = ''Contact''"
    "send_email_role ''update'' ''Recruitment drive'' = ''HR/Recruiter''"
    "send_email_role ''request'' ''Interview availability request'' = ''Interviewer''"
    "send_email_role ''candidate_invitation'' ''Next steps'' = ''Candidate''"
    by code_simp+
  have spec: "spec_role ''Contact'' ''Applicant screening call'' = ''Candidate''"
    "spec_role ''Recipient'' ''Recruitment drive'' = ''Recipient''"
    "spec_role ''Recipient'' ''Interview availability request'' = ''Recipient''"
    "spec_role ''Recipient'' ''Next steps'' = ''Recipient''"
    by code_simp+
  have sent: "\<not> contains ''fail'' (lower ''sent'')" "\<not> contains ''error'' (lower ''sent'')"
    by code_simp+
  have call: "returned (call_contact ''Sam Lee'' ''555-0102'' ''Applicant screening call''
      [''spoke for ten minutes'']) ''contact_role'' = Some (PStr ''Contact'')"
    by (simp add: call_contact_def input_def returned_def Let_def code)
  have email: "\<And>rcpt subject message_type now.
      returned (send_email rcpt subject message_type [] now [''sent'', []]) ''recipient_role'' =
        Some (PStr (send_email_role message_type subject))"
    by (simp add: send_email_def input_def returned_def Let_def sent strip_def)
  show ?thesis
    by (simp only: call email code spec simp_thms)
qed

text \<open>
  Claim C5, amended. A contact call labels the role from its lowercased purpose:
  \<^verbatim>\<open>Interviewer\<close> if it contains \<^verbatim>\<open>interviewer\<close>, else \<^verbatim>\<open>Candidate\<close> if it contains
  \<^verbatim>\<open>candidate\<close>, else \<^verbatim>\<open>HR/Recruiter\<close> if it contains \<^verbatim>\<open>hr\<close> or \<^verbatim>\<open>recruiter\<close>,
  else \<^verbatim>\<open>Contact\<close>. An email labels it from its lowercased message type and subject, a
  keyword counting when either contains it: \<^verbatim>\<open>Interviewer\<close> for \<^verbatim>\<open>interviewer\<close> or
  \<^verbatim>\<open>interview availability\<close>, else \<^verbatim>\<open>Candidate\<close> for \<^verbatim>\<open>candidate\<close> or
  \<^verbatim>\<open>applicant\<close>, else \<^verbatim>\<open>HR/Recruiter\<close> for \<^verbatim>\<open>hr\<close>, \<^verbatim>\<open>recruiter\<close> or
  \<^verbatim>\<open>recruitment\<close>, else \<^verbatim>\<open>Recipient\<close>. The email is given the three lines it may
  read.
\<close>

theorem role_by_tool:
  "returned (call_contact contact_name phone_number purpose (outcome # ins)) ''contact_role'' =
     Some (PStr
       (if contains ''interviewer'' (lower purpose) then ''Interviewer''
        else if contains ''candidate'' (lower purpose) then ''Candidate''
        else if contains ''hr'' (lower purpose) \<or> contains ''recruiter'' (lower purpose)
          then ''HR/Recruiter''
        else ''Contact'')) \<and>
   returned (send_email recipient_email subject message_type additional_details now
       (delivery # reply # delay # rest)) ''recipient_role'' =
     Some (PStr
       (if contains ''interviewer'' (lower message_type) \<or> contains ''interviewer'' (lower subject) \<or>
           contains ''interview availability'' (lower message_type) \<or>
           contains ''interview availability'' (lower subject) then ''Interviewer''
        else if contains ''candidate'' (lower message_type) \<or> contains ''candidate'' (lower subject) \<or>
           contains ''applicant'' (lower message_type) \<or> contains ''applicant'' (lower subject)
          then ''Candidate''
        else if contains ''hr'' (lower message_type) \<or> contains ''hr'' (lower subject) \<or>
           contains ''recruiter'' (lower message_type) \<or> contains ''recruiter'' (lower subject) \<or>
           contains ''recruitment'' (lower message_type) \<or> contains ''recruitment'' (lower subject)
          then ''HR/Recruiter''
        else ''Recipient''))"
proof
  show "returned (call_contact contact_name phone_number purpose (outcome # ins)) ''contact_role'' =
     Some (PStr
       (if contains ''interviewer'' (lower purpose) then ''Interviewer''
        else if contains ''candidate'' (lower purpose) then ''Candidate''
        else if contains ''hr'' (lower purpose) \<or> contains ''recruiter'' (lower purpose)
          then ''HR/Recruiter''
        else ''Contact''))"
    by (simp add: call_contact_def call_contact_role_def input_def returned_def)
next
  have role: "returned (send_email recipient_email subject message_type additional_details now
       (delivery # reply # delay # rest)) ''recipient_role'' =
       Some (PStr (send_email_role message_type subject))"
    by (simp add: send_email_def input_def returned_def Let_def)
  show "returned (send_email recipient_email subject message_type additional_details now
       (delivery # reply # delay # rest)) ''recipient_role'' =
     Some (PStr
       (if contains ''interviewer'' (lower message_type) \<or> contains ''interviewer'' (lower subject) \<or>
           contains ''interview availability'' (lower message_type) \<or>
           contains ''interview availability'' (lower subject) then ''Interviewer''
        else if contains ''candidate'' (lower message_type) \<or> contains ''candidate'' (lower subject) \<or>
           contains ''applicant'' (lower message_type) \<or> contains ''applicant'' (lower subject)
          then ''Candidate''
        else if contains ''hr'' (lower message_type) \<or> contains ''hr'' (lower subject) \<or>
           contains ''recruiter'' (lower message_type) \<or> contains ''recruiter'' (lower subject) \<or>
           contains ''recruitment'' (lower message_type) \<or> contains ''recruitment'' (lower subject)
          then ''HR/Recruiter''
        else ''Recipient''))"
    unfolding role by (simp add: send_email_role_def Let_def)
qed

theorem role_by_tool_witness:
  "returned (call_contact ''Sam Lee'' ''555-0102'' ''Applicant screening call''
      [''spoke for ten minutes'']) ''contact_role'' = Some (PStr ''Contact'') \<and>
   returned (send_email ''dana@example.com'' ''Recruitment drive'' ''update'' []
      \<lparr>year = 2025, month = 6, day = 3, hour = 14, minute = 5, second = 9, microsecond = 0\<rparr>
      [''sent'', ''will do'', ''2 hours'']) ''recipient_role'' = Some (PStr ''HR/Recruiter'')"
proof -
  have call: "\<not> contains ''interviewer'' (lower ''Applicant screening call'')"
    "\<not> contains ''candidate'' (lower ''Applicant screening call'')"
    "\<not> contains ''hr'' (lower ''Applicant screening call'')"
    "\<not> contains ''recruiter'' (lower ''Applicant screening call'')"
    by code_simp+
  have email: "\<not> contains ''interviewer'' (lower ''update'')"
    "\<not> contains ''interviewer'' (lower ''Recruitment drive'')"
    "\<not> contains ''interview availability'' (lower ''update'')"
    "\<not> contains ''interview availability'' (lower ''Recruitment drive'')"
    "\<not> contains ''candidate'' (lower ''update'')"
    "\<not> contains ''candidate'' (lower ''Recruitment drive'')"
    "\<not> contains ''applicant'' (lower ''update'')"
    "\<not> contains ''applicant'' (lower ''Recruitment drive'')"
    "contains ''recruitment'' (lower ''Recruitment drive'')"
    by code_simp+
  show ?thesis
    using role_by_tool [of "''Sam Lee''" "''555-0102''" "''Applicant screening call''"
        "''spoke for ten minutes''" "[]" "''dana@example.com''" "''Recruitment drive''" "''update''"
        "[]"
        "\<lparr>year = 2025, month = 6, day = 3, hour = 14, minute = 5, second = 9, microsecond = 0\<rparr>"
        "''sent''" "''will do''" "''2 hours''" "[]"]
    by (simp only: call email simp_thms if_True if_False)
qed

section \<open>The error branch of the SQL tool\<close>

text \<open>
  Claim C10. When the first line given to \<^verbatim>\<open>execute_sql_query\<close> starts with
  \<^verbatim>\<open>error\<close> (case-insensitively), the tool returns (no exception escapes) a record with
  status \<^verbatim>\<open>error\<close> whose error message is that line without its first six characters,
  stripped of surrounding whitespace (the no-break space and the next-line control too), or
  \<^verbatim>\<open>Unknown database error\<close> when the line has at most six characters; it reads no
  second line.
\<close>

theorem execute_sql_query_error:
  assumes "startswith (lower outcome) ''error''"
  shows "returned (execute_sql_query rt query explanation now (outcome # ins)) ''status'' =
           Some (PStr ''error'') \<and>
         returned (execute_sql_query rt query explanation now (outcome # ins)) ''error_message'' =
           Some (PStr (if length outcome \<le> 6 then ''Unknown database error''
                       else strip (drop 6 outcome))) \<and>
         unread (execute_sql_query rt query explanation now (outcome # ins)) = Some ins"
  using assms
  by (simp add: execute_sql_query_def input_def returned_def unread_def)

theorem execute_sql_query_error_witness:
  "returned (execute_sql_query \<lparr>json_loads = (\<lambda>s. JSONDecodeError), int_of_digits = (\<lambda>s. Inr 0)\<rparr>
      ''SELECT * FROM users'' []
      \<lparr>year = 2025, month = 6, day = 3, hour = 14, minute = 5, second = 9, microsecond = 0\<rparr>
      [''Error: table users does not exist  '', ''42'']) ''error_message'' =
     Some (PStr ''table users does not exist'') \<and>
   unread (execute_sql_query \<lparr>json_loads = (\<lambda>s. JSONDecodeError), int_of_digits = (\<lambda>s. Inr 0)\<rparr>
      ''SELECT * FROM users'' []
      \<lparr>year = 2025, month = 6, day = 3, hour = 14, minute = 5, second = 9, microsecond = 0\<rparr>
      [''Error: table users does not exist  '', ''42'']) = Some [''42''] \<and>
   returned (execute_sql_query \<lparr>json_loads = (\<lambda>s. JSONDecodeError), int_of_digits = (\<lambda>s. Inr 0)\<rparr>
      ''SELECT * FROM users'' []
      \<lparr>year = 2025, month = 6, day = 3, hour = 14, minute = 5, second = 9, microsecond = 0\<rparr>
      [''ERROR:'']) ''error_message'' = Some (PStr ''Unknown database error'') \<and>
   returned (execute_sql_query \<lparr>json_loads = (\<lambda>s. JSONDecodeError), int_of_digits = (\<lambda>s. Inr 0)\<rparr>
      ''SELECT * FROM users'' []
      \<lparr>year = 2025, month = 6, day = 3, hour = 14, minute = 5, second = 9, microsecond = 0\<rparr>
      [''error:'' @ [CHR 0xA0] @ ''boom'' @ [CHR 0xA0]]) ''error_message'' = Some (PStr ''boom'')"
proof -
  have long: "startswith (lower ''Error: table users does not exist  '') ''error''"
    by code_simp
  have nbsp: "startswith (lower (''error:'' @ [CHR 0xA0] @ ''boom'' @ [CHR 0xA0])) ''error''"
    by code_simp
  have boom: "strip (drop 6 (''error:'' @ [CHR 0xA0] @ ''boom'' @ [CHR 0xA0])) = ''boom''"
    by code_simp
  have boom_len: "\<not> length (''error:'' @ [CHR 0xA0] @ ''boom'' @ [CHR 0xA0]) \<le> 6"
    by simp
  have short: "startswith (lower ''ERROR:'') ''error''"
    by code_simp
  have msg: "strip (drop 6 ''Error: table users does not exist  '') = ''table users does not exist''"
    by code_simp
  have len: "\<not> length ''Error: table users does not exist  '' \<le> 6" "length ''ERROR:'' \<le> 6"
    by simp_all
  show ?thesis
    using execute_sql_query_error [OF long,
        of "\<lparr>json_loads = (\<lambda>s. JSONDecodeError), int_of_digits = (\<lambda>s. Inr 0)\<rparr>"
        "''SELECT * FROM users''" "[]"
        "\<lparr>year = 2025, month = 6, day = 3, hour = 14, minute = 5, second = 9, microsecond = 0\<rparr>"
        "[''42'']"]
      execute_sql_query_error [OF short,
        of "\<lparr>json_loads = (\<lambda>s. JSONDecodeError), int_of_digits = (\<lambda>s. Inr 0)\<rparr>"
        "''SELECT * FROM users''" "[]"
        "\<lparr>year = 2025, month = 6, day = 3, hour = 14, minute = 5, second = 9, microsecond = 0\<rparr>"
        "[]"]
      execute_sql_query_error [OF nbsp,
        of "\<lparr>json_loads = (\<lambda>s. JSONDecodeError), int_of_digits = (\<lambda>s. Inr 0)\<rparr>"
        "''SELECT * FROM users''" "[]"
        "\<lparr>year = 2025, month = 6, day = 3, hour = 14, minute = 5, second = 9, microsecond = 0\<rparr>"
        "[]"]
    by (simp only: msg len boom boom_len if_True if_False simp_thms)
qed

end
